theory Spec2Isabelle
  imports Main "HOL-Library.AList" "HOL-Library.Multiset"
begin

section \<open>The crossword server: websocketServer.py\<close>

text \<open>
  The program keeps all of its state in a Redis database and talks to its clients over
  Socket.IO. Both are libraries: the Redis commands the program calls are modelled below
  from their documented behaviour on a database that maps keys to typed values, and an
  emitted Socket.IO event is recorded with the set of connections it is addressed to.
  Every handler is a function from the database before the call to either the exception
  it raises (with the database as the exception leaves it) or its result.
\<close>

subsection \<open>Values as Redis stores them\<close>

text \<open>
  Redis stores byte strings. redis-py sends a Python \<open>str\<close> as its UTF-8 bytes and an
  \<open>int\<close> as the bytes of its decimal \<open>repr\<close>; \<open>str_int\<close> is that decimal text.
\<close>

type_synonym bytes = string

definition digit_char :: "nat \<Rightarrow> char" where
  "digit_char d = ''0123456789'' ! d"

function str_nat :: "nat \<Rightarrow> string" where
  "str_nat n = (if n < 10 then [digit_char n] else str_nat (n div 10) @ [digit_char (n mod 10)])"
  by pat_completeness auto
termination
  by (relation "measure id") auto

declare str_nat.simps [simp del]

definition str_int :: "int \<Rightarrow> string" where
  "str_int i = (if i < 0 then CHR ''-'' # str_nat (nat (- i)) else str_nat (nat i))"

text \<open>
  The way back, as \<open>int\<close> reads a decimal text (lines 60 and 67 decode the stored
  numbers so): an optional minus sign, then digits.
\<close>

definition digit_val :: "char \<Rightarrow> nat option" where
  "digit_val c = map_of (zip ''0123456789'' [0, 1, 2, 3, 4, 5, 6, 7, 8, 9]) c"

fun nat_of_digits :: "nat \<Rightarrow> string \<Rightarrow> nat option" where
  "nat_of_digits acc [] = Some acc"
| "nat_of_digits acc (c # cs) =
     (case digit_val c of None \<Rightarrow> None | Some d \<Rightarrow> nat_of_digits (10 * acc + d) cs)"

definition int_of_str :: "string \<Rightarrow> int option" where
  "int_of_str s =
     (case s of
        [] \<Rightarrow> None
      | c # t \<Rightarrow>
          if c = CHR ''-'' then (if t = [] then None else map_option (\<lambda>n. - int n) (nat_of_digits 0 t))
          else map_option int (nat_of_digits 0 s))"

datatype rvalue =
    RString bytes
  | RList "bytes list"
  | RHash "(bytes \<times> bytes) list"

type_synonym redis = "string \<rightharpoonup> rvalue"

text \<open>
  The replies with which a Redis command refuses to run (redis-py raises each as
  \<open>redis.exceptions.ResponseError\<close>), and the Python exceptions of the program's own
  dictionary and list accesses.
\<close>

datatype reply_error =
    WrongType
  | WrongNumberOfArguments
  | NoSuchKey
  | IndexOutOfRange

datatype error =
    KeyError string
  | IndexError
  | FileError
  | JSONDecodeError
  | ResponseError reply_error

text \<open>
  The outcome of a piece of the program started on a database: \<open>Inl (e, r)\<close> when it
  raises \<open>e\<close> having brought the database to \<open>r\<close>, \<open>Inr x\<close> when it returns \<open>x\<close>.
\<close>

type_synonym 'a outcome = "(error \<times> redis) + 'a"

subsection \<open>The Redis commands the program calls\<close>

text \<open>
  A command that is refused changes nothing. \<open>FLUSHDB\<close> removes every key; \<open>SET\<close>
  overwrites a key of any type; \<open>RPUSH\<close> and \<open>LPUSH\<close> create the list when the key is
  absent, need at least one value, and insert the values one after the other at the tail
  or at the head, so that \<open>LPUSH k a b c\<close> on an absent key leaves the list \<open>c b a\<close>;
  \<open>LSET\<close> counts a negative index from the tail and refuses an index outside the list;
  \<open>HSET\<close> keeps a field's place when the field exists and adds it last otherwise;
  \<open>HDEL\<close> removes the key with its last field.
\<close>

definition flushdb :: "redis \<Rightarrow> reply_error + redis" where
  "flushdb r = Inr Map.empty"

definition redis_set :: "string \<Rightarrow> bytes \<Rightarrow> redis \<Rightarrow> reply_error + redis" where
  "redis_set k v r = Inr (r(k \<mapsto> RString v))"

definition rpush :: "string \<Rightarrow> bytes list \<Rightarrow> redis \<Rightarrow> reply_error + redis" where
  "rpush k vs r =
     (if vs = [] then Inl WrongNumberOfArguments
      else case r k of
             None \<Rightarrow> Inr (r(k \<mapsto> RList vs))
           | Some (RList xs) \<Rightarrow> Inr (r(k \<mapsto> RList (xs @ vs)))
           | Some _ \<Rightarrow> Inl WrongType)"

definition lpush :: "string \<Rightarrow> bytes list \<Rightarrow> redis \<Rightarrow> reply_error + redis" where
  "lpush k vs r =
     (if vs = [] then Inl WrongNumberOfArguments
      else case r k of
             None \<Rightarrow> Inr (r(k \<mapsto> RList (rev vs)))
           | Some (RList xs) \<Rightarrow> Inr (r(k \<mapsto> RList (rev vs @ xs)))
           | Some _ \<Rightarrow> Inl WrongType)"

definition lset :: "string \<Rightarrow> int \<Rightarrow> bytes \<Rightarrow> redis \<Rightarrow> reply_error + redis" where
  "lset k i v r =
     (case r k of
        None \<Rightarrow> Inl NoSuchKey
      | Some (RList xs) \<Rightarrow>
          (if 0 \<le> i \<and> i < int (length xs) then
             Inr (r(k \<mapsto> RList (xs[nat i := v])))
           else if i < 0 \<and> - int (length xs) \<le> i then
             Inr (r(k \<mapsto> RList (xs[nat (int (length xs) + i) := v])))
           else Inl IndexOutOfRange)
      | Some _ \<Rightarrow> Inl WrongType)"

definition hset :: "string \<Rightarrow> bytes \<Rightarrow> bytes \<Rightarrow> redis \<Rightarrow> reply_error + redis" where
  "hset k f v r =
     (case r k of
        None \<Rightarrow> Inr (r(k \<mapsto> RHash [(f, v)]))
      | Some (RHash h) \<Rightarrow> Inr (r(k \<mapsto> RHash (AList.update f v h)))
      | Some _ \<Rightarrow> Inl WrongType)"

definition hdel :: "string \<Rightarrow> bytes \<Rightarrow> redis \<Rightarrow> reply_error + redis" where
  "hdel k f r =
     (case r k of
        None \<Rightarrow> Inr r
      | Some (RHash h) \<Rightarrow>
          (if AList.delete f h = [] then Inr (r(k := None))
           else Inr (r(k \<mapsto> RHash (AList.delete f h))))
      | Some _ \<Rightarrow> Inl WrongType)"

definition hvals :: "string \<Rightarrow> redis \<Rightarrow> reply_error + bytes list" where
  "hvals k r =
     (case r k of
        None \<Rightarrow> Inr []
      | Some (RHash h) \<Rightarrow> Inr (map snd h)
      | Some _ \<Rightarrow> Inl WrongType)"

definition hkeys :: "string \<Rightarrow> redis \<Rightarrow> reply_error + bytes list" where
  "hkeys k r =
     (case r k of
        None \<Rightarrow> Inr []
      | Some (RHash h) \<Rightarrow> Inr (map fst h)
      | Some _ \<Rightarrow> Inl WrongType)"

text \<open>
  Sequencing: \<open>run r c k\<close> sends the command \<open>c\<close> to the database \<open>r\<close> and continues
  with \<open>k\<close> on the new database, or raises the command's refusal at \<open>r\<close>;
  \<open>query r c k\<close> does the same for a command that only reads; \<open>item r key v k\<close> is
  the dictionary access \<open>d[key]\<close>, raising \<open>KeyError\<close> when the key is missing;
  \<open>then_do m k\<close> continues with \<open>k\<close> when the statements \<open>m\<close> have not raised.
\<close>

definition run :: "redis \<Rightarrow> (redis \<Rightarrow> reply_error + redis) \<Rightarrow> (redis \<Rightarrow> 'a outcome) \<Rightarrow> 'a outcome" where
  "run r c k = (case c r of Inl e \<Rightarrow> Inl (ResponseError e, r) | Inr r' \<Rightarrow> k r')"

definition query :: "redis \<Rightarrow> (redis \<Rightarrow> reply_error + 'b) \<Rightarrow> ('b \<Rightarrow> 'a outcome) \<Rightarrow> 'a outcome" where
  "query r c k = (case c r of Inl e \<Rightarrow> Inl (ResponseError e, r) | Inr x \<Rightarrow> k x)"

definition item :: "redis \<Rightarrow> string \<Rightarrow> 'b option \<Rightarrow> ('b \<Rightarrow> 'a outcome) \<Rightarrow> 'a outcome" where
  "item r key v k = (case v of None \<Rightarrow> Inl (KeyError key, r) | Some x \<Rightarrow> k x)"

definition then_do :: "'b outcome \<Rightarrow> ('b \<Rightarrow> 'a outcome) \<Rightarrow> 'a outcome" where
  "then_do m k = (case m of Inl e \<Rightarrow> Inl e | Inr x \<Rightarrow> k x)"

subsection \<open>Loading a puzzle: initializeRedisFromJson\<close>

text \<open>
  The puzzle definition is the dictionary \<open>json.load\<close> returns. Its fields have the types
  of the puzzle files (integers for the sizes and the numbering, strings for the cells,
  the clues and the title); a field may be missing, and reading a missing field raises
  \<open>KeyError\<close>. Reading and parsing the file is the parameter \<open>json_load\<close>, \<open>None\<close>
  when the file cannot be opened or parsed.
\<close>

record puzzle_size =
  size_rows :: "int option"
  size_cols :: "int option"

record puzzle_clues =
  clues_across :: "string list option"
  clues_down :: "string list option"

record puzzle_json =
  json_size :: "puzzle_size option"
  json_grid :: "string list option"
  json_clues :: "puzzle_clues option"
  json_gridnums :: "int list option"
  json_title :: "string option"

text \<open>
  Lines 165 to 168: the loop walks the list it overwrites, reading the cell at \<open>ind\<close>
  from the list as it is then and writing a blank over every cell that is not \<open>''.''\<close>.
\<close>

definition blank_letters :: "string list \<Rightarrow> string list" where
  "blank_letters gridCopy =
     fold (\<lambda>ind g. if g ! ind \<noteq> ''.'' then g[ind := '' ''] else g)
       [0 ..< length gridCopy] gridCopy"

text \<open>
  Lines 137 to 170. The function reads \<open>sys.argv\<close>, not its parameter: the file is the
  example puzzle when the program was started with no argument and the first argument
  otherwise. It then flushes the database and writes the puzzle key by key, so an
  exception leaves behind what was written before it.
\<close>

definition initializeRedisFromJson ::
  "(string \<Rightarrow> puzzle_json option) \<Rightarrow> string list \<Rightarrow> redis \<Rightarrow> redis outcome" where
  "initializeRedisFromJson json_load sys_argv r0 =
     (case (if length sys_argv = 1 then Inr ''json/ExampleCrossword.json''
            else if length sys_argv < 2 then Inl IndexError
            else Inr (sys_argv ! 1)) of
        Inl e \<Rightarrow> Inl (e, r0)
      | Inr fileName \<Rightarrow>
     (case json_load fileName of
        None \<Rightarrow> Inl (FileError, r0)
      | Some jsonData \<Rightarrow>
          run r0 flushdb (\<lambda>r.
          run r (redis_set ''stateNumber'' (str_int 0)) (\<lambda>r.
          item r ''size'' (json_size jsonData) (\<lambda>sz.
          item r ''cols'' (size_cols sz) (\<lambda>cols.
          run r (redis_set ''cols'' (str_int cols)) (\<lambda>r.
          item r ''size'' (json_size jsonData) (\<lambda>sz.
          item r ''rows'' (size_rows sz) (\<lambda>rows.
          run r (redis_set ''rows'' (str_int rows)) (\<lambda>r.
          item r ''grid'' (json_grid jsonData) (\<lambda>grid.
          run r (rpush ''answerGrid'' grid) (\<lambda>r.
          item r ''clues'' (json_clues jsonData) (\<lambda>clues.
          item r ''across'' (clues_across clues) (\<lambda>across.
          run r (rpush ''cluesAcross'' across) (\<lambda>r.
          item r ''clues'' (json_clues jsonData) (\<lambda>clues.
          item r ''down'' (clues_down clues) (\<lambda>down.
          run r (rpush ''cluesDown'' down) (\<lambda>r.
          item r ''gridnums'' (json_gridnums jsonData) (\<lambda>gridnums.
          run r (rpush ''gridNumbers'' (map str_int gridnums)) (\<lambda>r.
          item r ''title'' (json_title jsonData) (\<lambda>title.
          run r (redis_set ''title'' title) (\<lambda>r.
          run r (lpush ''revealedGrid'' [''-1'']) (\<lambda>r.
          item r ''grid'' (json_grid jsonData) (\<lambda>gridCopy.
          run r (lpush ''grid'' (blank_letters gridCopy)) (\<lambda>r.
          Inr r)))))))))))))))))))))))))"

text \<open>
  The main program (lines 176 to 185) connects to Redis, loads the puzzle and only then
  starts the web server: an exception of the load ends the process before \<open>app.run\<close>.
\<close>

datatype process =
    Crashed error redis
  | Serving redis

definition main_event :: "(string \<Rightarrow> puzzle_json option) \<Rightarrow> string list \<Rightarrow> redis \<Rightarrow> process" where
  "main_event json_load sys_argv r =
     (case initializeRedisFromJson json_load sys_argv r of
        Inl (e, r') \<Rightarrow> Crashed e r'
      | Inr r' \<Rightarrow> Serving r')"

text \<open>
  A valid puzzle definition: every field is there, the sizes are positive, the answer
  grid and the numbering have \<open>rows * cols\<close> entries, and there are clues each way.
\<close>

definition valid_puzzle :: "puzzle_json \<Rightarrow> bool" where
  "valid_puzzle d =
     (case (json_size d, json_grid d, json_clues d, json_gridnums d, json_title d) of
        (Some sz, Some grid, Some clues, Some gridnums, Some title) \<Rightarrow>
          (case (size_rows sz, size_cols sz, clues_across clues, clues_down clues) of
             (Some rows, Some cols, Some across, Some down) \<Rightarrow>
               0 < rows \<and> 0 < cols \<and> int (length grid) = rows * cols \<and>
               length gridnums = length grid \<and> across \<noteq> [] \<and> down \<noteq> []
           | _ \<Rightarrow> False)
      | _ \<Rightarrow> False)"

subsection \<open>Socket.IO events\<close>

text \<open>
  A connection is known by its session id, \<open>request.sid\<close> inside a handler. An emitted
  event is recorded with its name, its payload and the connections it is addressed to.
  A payload is either a text sent as it is or the \<open>json.dumps\<close> of a dictionary from
  keys to lists of strings, kept here as the dictionary in the order it was written.

  \<open>socketio.emit (..., include_self = b)\<close> addresses every connected client, the one
  whose event is being handled only when \<open>b\<close> holds; the function \<open>emit\<close> of
  flask_socketio, called with no room and no broadcast flag, addresses that one client
  alone. \<open>clients\<close> is the set of connections at the time of the call.
\<close>

type_synonym sid = string

datatype payload =
    Text string
  | JsonDumps "(string \<times> string list) list"

record emission =
  ev_name :: string
  ev_data :: payload
  ev_to :: "sid set"

definition socketio_emit :: "sid set \<Rightarrow> sid \<Rightarrow> string \<Rightarrow> payload \<Rightarrow> bool \<Rightarrow> emission" where
  "socketio_emit clients request_sid event data include_self =
     \<lparr>ev_name = event, ev_data = data,
      ev_to = (if include_self then clients else clients - {request_sid})\<rparr>"

definition emit :: "sid \<Rightarrow> string \<Rightarrow> payload \<Rightarrow> emission" where
  "emit request_sid event data = \<lparr>ev_name = event, ev_data = data, ev_to = {request_sid}\<rparr>"

text \<open>What a connection receives of a list of emitted events, in order.\<close>

definition received :: "sid \<Rightarrow> emission list \<Rightarrow> (string \<times> payload) list" where
  "received c ems = map (\<lambda>e. (ev_name e, ev_data e)) (filter (\<lambda>e. c \<in> ev_to e) ems)"

subsection \<open>The message handlers\<close>

text \<open>
  A client message is a JSON text; \<open>json.loads\<close> is the parameter \<open>loads\<close>, \<open>None\<close>
  where it raises. The decoded message is a dictionary in which the keys the handlers
  read may be missing; where they are present they have the types of the wire format
  (a string for \<open>method\<close> and \<open>value\<close>, an integer for \<open>position\<close>).
\<close>

record request =
  req_method :: "string option"
  req_position :: "int option"
  req_value :: "string option"

definition handle_UpdateGrid ::
  "(string \<Rightarrow> request option) \<Rightarrow> sid set \<Rightarrow> sid \<Rightarrow> string \<Rightarrow> redis \<Rightarrow>
   (redis \<times> emission list) outcome" where
  "handle_UpdateGrid loads clients request_sid incomingJsonString r0 =
     (case loads incomingJsonString of
        None \<Rightarrow> Inl (JSONDecodeError, r0)
      | Some req \<Rightarrow>
          item r0 ''method'' (req_method req) (\<lambda>m.
          then_do
            (if m = ''manual'' then
               item r0 ''position'' (req_position req) (\<lambda>position.
               item r0 ''value'' (req_value req) (\<lambda>v.
               run r0 (lset ''grid'' position v) Inr))
             else if m = ''revealed'' then
               item r0 ''position'' (req_position req) (\<lambda>position.
               run r0 (lpush ''revealedGrid'' [str_int position]) Inr)
             else Inr r0)
            (\<lambda>r. Inr (r, [socketio_emit clients request_sid ''serverGridUpdate''
                             (Text incomingJsonString) False]))))"

definition handle_UpdatePosition ::
  "(string \<Rightarrow> request option) \<Rightarrow> sid set \<Rightarrow> sid \<Rightarrow> string \<Rightarrow> redis \<Rightarrow>
   (redis \<times> emission list) outcome" where
  "handle_UpdatePosition loads clients request_sid incomingJsonString r0 =
     (case loads incomingJsonString of
        None \<Rightarrow> Inl (JSONDecodeError, r0)
      | Some req \<Rightarrow>
          item r0 ''position'' (req_position req) (\<lambda>position.
          run r0 (hset ''userHash'' request_sid (str_int position)) (\<lambda>r.
          query r (hvals ''userHash'') (\<lambda>hashValues.
          query r (hkeys ''userHash'') (\<lambda>hashKeys.
          Inr (r, [socketio_emit clients request_sid ''serverPositionUpdate''
                     (JsonDumps [(''websocketID'', hashKeys), (''position'', hashValues)])
                     True]))))))"

definition handle_connect :: "sid \<Rightarrow> redis \<Rightarrow> (redis \<times> emission list) outcome" where
  "handle_connect request_sid r0 =
     run r0 (hset ''userHash'' request_sid ''0'') (\<lambda>r.
     Inr (r, [emit request_sid ''serverAssignID'' (Text request_sid)]))"

text \<open>
  The handler of the \<open>disconnect\<close> event (lines 120 to 125). The source names this
  function \<open>handle_connect\<close> too; each is registered for its event by its decorator.
\<close>

definition handle_disconnect :: "sid set \<Rightarrow> sid \<Rightarrow> redis \<Rightarrow> (redis \<times> emission list) outcome" where
  "handle_disconnect clients request_sid r0 =
     run r0 (hdel ''userHash'' request_sid) (\<lambda>r.
     query r (hvals ''userHash'') (\<lambda>hashValues.
     Inr (r, [socketio_emit clients request_sid ''serverPositionUpdate''
                (JsonDumps [(''position'', hashValues)]) False])))"

text \<open>
  The presence entries are the fields of the hash \<open>userHash\<close>, in the order \<open>HKEYS\<close>
  and \<open>HVALS\<close> list them; \<open>presence\<close> is the mapping from connection to position they
  stand for. \<open>presence_ok\<close> holds of a database in which \<open>userHash\<close> is absent or a hash
  (whose fields, as in every Redis hash, are distinct).
\<close>

definition presence_entries :: "redis \<Rightarrow> (sid \<times> bytes) list" where
  "presence_entries r = (case r ''userHash'' of Some (RHash h) \<Rightarrow> h | _ \<Rightarrow> [])"

definition presence :: "redis \<Rightarrow> sid \<rightharpoonup> bytes" where
  "presence r = map_of (presence_entries r)"

definition presence_ok :: "redis \<Rightarrow> bool" where
  "presence_ok r =
     (case r ''userHash'' of
        None \<Rightarrow> True
      | Some (RHash h) \<Rightarrow> distinct (map fst h)
      | Some _ \<Rightarrow> False)"

text \<open>
  A definition lacks a required field when one of the keys the load reads is missing:
  \<open>size\<close>, \<open>size.cols\<close>, \<open>size.rows\<close>, \<open>grid\<close>, \<open>clues\<close>, \<open>clues.across\<close>, \<open>clues.down\<close>,
  \<open>gridnums\<close> or \<open>title\<close>.
\<close>

definition missing_field :: "puzzle_json \<Rightarrow> bool" where
  "missing_field d =
     ((case json_size d of None \<Rightarrow> True
       | Some sz \<Rightarrow> size_cols sz = None \<or> size_rows sz = None) \<or>
      json_grid d = None \<or>
      (case json_clues d of None \<Rightarrow> True
       | Some clues \<Rightarrow> clues_across clues = None \<or> clues_down clues = None) \<or>
      json_gridnums d = None \<or>
      json_title d = None)"

text \<open>
  The exceptions a load can end with once the file has been read: a \<open>KeyError\<close>, or
  Redis refusing a push that was given no value. \<open>raises P m\<close> holds when \<open>m\<close> ends
  with an exception that satisfies \<open>P\<close>.
\<close>

definition load_error :: "error \<Rightarrow> bool" where
  "load_error e =
     (case e of KeyError k \<Rightarrow> True
      | ResponseError x \<Rightarrow> x = WrongNumberOfArguments
      | _ \<Rightarrow> False)"

definition raises :: "(error \<Rightarrow> bool) \<Rightarrow> 'a outcome \<Rightarrow> bool" where
  "raises P m = (case m of Inl (e, r) \<Rightarrow> P e | Inr x \<Rightarrow> False)"

subsection \<open>The databases of a running server\<close>

text \<open>
  \<open>store_ok n\<close> holds of a database in which the live grid is a list of \<open>n\<close> cells,
  \<open>revealedGrid\<close> is a list and the presence hash is absent or a hash.
\<close>

definition store_ok :: "nat \<Rightarrow> redis \<Rightarrow> bool" where
  "store_ok n r =
     (presence_ok r \<and>
      (case r ''grid'' of Some (RList g) \<Rightarrow> length g = n | _ \<Rightarrow> False) \<and>
      (case r ''revealedGrid'' of Some (RList rg) \<Rightarrow> True | _ \<Rightarrow> False))"

text \<open>The database a handler leaves behind, whether it returns or raises.\<close>

definition after :: "(redis \<times> emission list) outcome \<Rightarrow> redis" where
  "after m = (case m of Inl (e, r) \<Rightarrow> r | Inr (r, ems) \<Rightarrow> r)"

text \<open>
  The states the running server can be in, for a puzzle of \<open>n\<close> cells: a database and
  the set of connections. The main program loads a valid puzzle definition and starts
  with no connection. Socket.IO runs the connect handler for a connection that arrives
  and the disconnect handler for one that leaves, and the message handlers for the
  messages of a connection that is there. A handler that raises leaves the database as
  the exception found it and the connections as they were.
\<close>

inductive running :: "nat \<Rightarrow> redis \<Rightarrow> sid set \<Rightarrow> bool" for n :: nat where
  loaded:
    "sys_argv = [prog] \<and> fileName = ''json/ExampleCrossword.json'' \<or>
       2 \<le> length sys_argv \<and> fileName = sys_argv ! 1 \<Longrightarrow>
     json_load fileName = Some d \<Longrightarrow> valid_puzzle d \<Longrightarrow>
     json_grid d = Some g \<Longrightarrow> length g = n \<Longrightarrow>
     main_event json_load sys_argv r0 = Serving r \<Longrightarrow> running n r {}"
| connect:
    "running n r clients \<Longrightarrow>
     running n (after (handle_connect s r)) (insert s clients)"
| disconnect:
    "running n r clients \<Longrightarrow> s \<in> clients \<Longrightarrow>
     running n (after (handle_disconnect clients s r)) (clients - {s})"
| grid_update:
    "running n r clients \<Longrightarrow> s \<in> clients \<Longrightarrow>
     running n (after (handle_UpdateGrid loads clients s msg r)) clients"
| position_update:
    "running n r clients \<Longrightarrow> s \<in> clients \<Longrightarrow>
     running n (after (handle_UpdatePosition loads clients s msg r)) clients"

section \<open>Properties\<close>

subsection \<open>Decimal text\<close>

text \<open>Reading the decimal text of an integer gives the integer back: no two integers
  are stored as the same text.\<close>

lemma below_ten:
  "(d::nat) < 10 \<Longrightarrow>
   d = 0 \<or> d = 1 \<or> d = 2 \<or> d = 3 \<or> d = 4 \<or> d = 5 \<or> d = 6 \<or> d = 7 \<or> d = 8 \<or> d = 9"
  by arith

lemma digit_val_digit_char: "d < 10 \<Longrightarrow> digit_val (digit_char d) = Some d"
  by (drule below_ten, elim disjE) (simp_all add: digit_val_def digit_char_def)

lemma digit_char_not_minus: "d < 10 \<Longrightarrow> digit_char d \<noteq> CHR ''-''"
  by (drule below_ten, elim disjE) (simp_all add: digit_char_def)

lemma nat_of_digits_append:
  "nat_of_digits acc (xs @ ys) =
     (case nat_of_digits acc xs of None \<Rightarrow> None | Some a \<Rightarrow> nat_of_digits a ys)"
  by (induction xs arbitrary: acc) (auto split: option.splits)

lemma nat_of_digits_str_nat: "nat_of_digits 0 (str_nat n) = Some n"
proof (induction n rule: str_nat.induct)
  case (1 n)
  show ?case
  proof (cases "n < 10")
    case True
    then show ?thesis
      by (simp add: str_nat.simps [of n] digit_val_digit_char)
  next
    case False
    with "1" have "nat_of_digits 0 (str_nat (n div 10)) = Some (n div 10)" by simp
    with False show ?thesis
      by (simp add: str_nat.simps [of n] nat_of_digits_append digit_val_digit_char)
  qed
qed

lemma str_nat_first: "\<exists>d t. d < 10 \<and> str_nat n = digit_char d # t"
proof (induction n rule: str_nat.induct)
  case (1 n)
  show ?case
  proof (cases "n < 10")
    case True
    then show ?thesis
      by (auto simp add: str_nat.simps [of n])
  next
    case False
    with "1" obtain d t where "d < 10" "str_nat (n div 10) = digit_char d # t" by blast
    with False show ?thesis
      by (auto simp add: str_nat.simps [of n])
  qed
qed

lemma int_of_str_str_int: "int_of_str (str_int i) = Some i"
proof (cases "i < 0")
  case True
  obtain d t where "d < 10" "str_nat (nat (- i)) = digit_char d # t"
    using str_nat_first by blast
  then have "str_nat (nat (- i)) \<noteq> []" by simp
  with True nat_of_digits_str_nat [of "nat (- i)"] show ?thesis
    by (simp add: int_of_str_def str_int_def)
next
  case False
  obtain d t where dt: "d < 10" "str_nat (nat i) = digit_char d # t"
    using str_nat_first by blast
  with False nat_of_digits_str_nat [of "nat i"] show ?thesis
    by (simp add: int_of_str_def str_int_def digit_char_not_minus)
qed

lemma str_int_inj: "str_int i = str_int j \<Longrightarrow> i = j"
  by (metis int_of_str_str_int option.inject)

subsection \<open>Loading\<close>

text \<open>The loop of lines 166 to 168 blanks every cell that is not \<open>''.''\<close> and keeps the rest.\<close>

lemma blank_letters_prefix:
  "n \<le> length g \<Longrightarrow>
   fold (\<lambda>ind g. if g ! ind \<noteq> ''.'' then g[ind := '' ''] else g) [0 ..< n] g =
   map (\<lambda>c. if c \<noteq> ''.'' then '' '' else c) (take n g) @ drop n g"
proof (induction n)
  case 0
  then show ?case by simp
next
  case (Suc n)
  then have n: "n < length g" by simp
  let ?b = "\<lambda>c::string. if c \<noteq> ''.'' then '' '' else c"
  let ?h = "map ?b (take n g) @ drop n g"
  have len: "length (map ?b (take n g)) = n" using n by simp
  have at: "?h ! n = g ! n"
    using n len by (simp add: nth_append)
  have upd: "?h[n := x] = map ?b (take n g) @ x # drop (Suc n) g" for x
    using n len by (simp add: list_update_append upd_conv_take_nth_drop
        Cons_nth_drop_Suc [symmetric])
  have same: "?h = map ?b (take n g) @ g ! n # drop (Suc n) g"
    using n by (simp add: Cons_nth_drop_Suc)
  show ?case
    using Suc.IH n at upd same
    by (simp add: take_Suc_conv_app_nth)
qed

lemma blank_letters_map:
  "blank_letters g = map (\<lambda>c. if c \<noteq> ''.'' then '' '' else c) g"
  using blank_letters_prefix [of "length g" g] by (simp add: blank_letters_def)

lemma str_int_0: "str_int 0 = ''0''"
  by (simp add: str_int_def str_nat.simps digit_char_def)

lemma str_int_minus_1: "str_int (- 1) = ''-1''"
  by (simp add: str_int_def str_nat.simps digit_char_def)

text \<open>
  What a load leaves in Redis when every field is there and no list is empty: the
  database holds exactly the ten keys below. The answer grid is stored in the order of
  the file (RPUSH); the live grid is the blanked grid pushed with LPUSH and so stands in
  the opposite order.
\<close>

lemma initializeRedisFromJson_complete:
  assumes "sys_argv = [prog] \<and> fileName = ''json/ExampleCrossword.json'' \<or>
           2 \<le> length sys_argv \<and> fileName = sys_argv ! 1"
    and "json_load fileName = Some d"
    and "json_size d = Some sz" "size_rows sz = Some rows" "size_cols sz = Some cols"
    and "json_grid d = Some grid" "grid \<noteq> []"
    and "json_clues d = Some clues"
    and "clues_across clues = Some across" "across \<noteq> []"
    and "clues_down clues = Some down" "down \<noteq> []"
    and "json_gridnums d = Some gridnums" "gridnums \<noteq> []"
    and "json_title d = Some title"
  shows "initializeRedisFromJson json_load sys_argv r0 =
     Inr [''stateNumber'' \<mapsto> RString ''0'', ''cols'' \<mapsto> RString (str_int cols),
          ''rows'' \<mapsto> RString (str_int rows), ''answerGrid'' \<mapsto> RList grid,
          ''cluesAcross'' \<mapsto> RList across, ''cluesDown'' \<mapsto> RList down,
          ''gridNumbers'' \<mapsto> RList (map str_int gridnums), ''title'' \<mapsto> RString title,
          ''revealedGrid'' \<mapsto> RList [''-1''],
          ''grid'' \<mapsto> RList (rev (map (\<lambda>c. if c \<noteq> ''.'' then '' '' else c) grid))]"
  using assms
  by (auto simp add: initializeRedisFromJson_def run_def item_def flushdb_def redis_set_def
      rpush_def lpush_def str_int_0 blank_letters_map)

text \<open>
  For a valid puzzle of \<open>N = rows * cols\<close> cells the load succeeds, the live grid has
  \<open>N\<close> cells, each \<open>''.''\<close> or a blank, and the live cell \<open>i\<close> is \<open>''.''\<close> exactly when
  the answer cell \<open>N - 1 - i\<close> is: the two grids are aligned only where the pattern of
  \<open>''.''\<close> cells reads the same from both ends.
\<close>

lemma initializeRedisFromJson_valid:
  assumes argv: "sys_argv = [prog] \<and> fileName = ''json/ExampleCrossword.json'' \<or>
           2 \<le> length sys_argv \<and> fileName = sys_argv ! 1"
    and src: "json_load fileName = Some d"
    and valid: "valid_puzzle d"
  obtains r answer live where
    "initializeRedisFromJson json_load sys_argv r0 = Inr r"
    "json_grid d = Some answer"
    "r ''answerGrid'' = Some (RList answer)"
    "r ''grid'' = Some (RList live)"
    "length live = length answer"
    "\<And>i. i < length answer \<Longrightarrow>
       live ! i = (if answer ! (length answer - 1 - i) = ''.'' then ''.'' else '' '')"
    "r ''userHash'' = None"
    "r ''revealedGrid'' = Some (RList [''-1''])"
proof -
  from valid obtain sz grid clues gridnums title rows cols across down where
    d: "json_size d = Some sz" "json_grid d = Some grid" "json_clues d = Some clues"
      "json_gridnums d = Some gridnums" "json_title d = Some title"
      "size_rows sz = Some rows" "size_cols sz = Some cols"
      "clues_across clues = Some across" "clues_down clues = Some down"
    and dims: "0 < rows" "0 < cols" "int (length grid) = rows * cols"
      "length gridnums = length grid" "across \<noteq> []" "down \<noteq> []"
    by (auto simp add: valid_puzzle_def split: option.splits)
  from dims have "0 < rows * cols" by simp
  with dims have ne: "grid \<noteq> []" "gridnums \<noteq> []" by auto
  let ?live = "rev (map (\<lambda>c. if c \<noteq> ''.'' then '' '' else c) grid)"
  have db: "initializeRedisFromJson json_load sys_argv r0 =
     Inr [''stateNumber'' \<mapsto> RString ''0'', ''cols'' \<mapsto> RString (str_int cols),
          ''rows'' \<mapsto> RString (str_int rows), ''answerGrid'' \<mapsto> RList grid,
          ''cluesAcross'' \<mapsto> RList across, ''cluesDown'' \<mapsto> RList down,
          ''gridNumbers'' \<mapsto> RList (map str_int gridnums), ''title'' \<mapsto> RString title,
          ''revealedGrid'' \<mapsto> RList [''-1''], ''grid'' \<mapsto> RList ?live]"
    by (rule initializeRedisFromJson_complete [where prog = prog and fileName = fileName and d = d
          and sz = sz and clues = clues])
      (use argv src d dims ne in simp_all)
  have cell: "?live ! i = (if grid ! (length grid - 1 - i) = ''.'' then ''.'' else '' '')"
    if "i < length grid" for i
    using that by (simp add: rev_nth)
  show thesis
    by (rule that [OF db d(2) _ _ _ cell]) simp_all
qed

text \<open>
  C1. Loading a valid puzzle is claimed to give a live grid that holds \<open>''.''\<close> exactly
  where the answer grid does. On the valid 1 by 2 puzzle whose answer grid is
  \<open>[''.'', ''A'']\<close> the program stores the answer grid in that order and the live grid as
  \<open>['' '', ''.'']\<close>: the live cell 0 is blank where the answer cell 0 is \<open>''.''\<close>, and
  the live cell 1 is \<open>''.''\<close> where the answer cell 1 is a letter.
\<close>

theorem C1_live_grid_is_reversed:
  "valid_puzzle
     \<lparr>json_size = Some \<lparr>size_rows = Some 1, size_cols = Some 2\<rparr>,
      json_grid = Some [''.'', ''A''],
      json_clues = Some \<lparr>clues_across = Some [''2. First letter''],
                         clues_down = Some [''2. A vowel'']\<rparr>,
      json_gridnums = Some [0, 2],
      json_title = Some ''Tiny''\<rparr> \<and>
   (case initializeRedisFromJson
        (\<lambda>fileName. Some
           \<lparr>json_size = Some \<lparr>size_rows = Some 1, size_cols = Some 2\<rparr>,
            json_grid = Some [''.'', ''A''],
            json_clues = Some \<lparr>clues_across = Some [''2. First letter''],
                               clues_down = Some [''2. A vowel'']\<rparr>,
            json_gridnums = Some [0, 2],
            json_title = Some ''Tiny''\<rparr>)
        [''websocketServer.py''] Map.empty of
      Inl failure \<Rightarrow> False
    | Inr r \<Rightarrow>
        r ''answerGrid'' = Some (RList [''.'', ''A'']) \<and>
        r ''grid'' = Some (RList ['' '', ''.'']))"
  by (simp add: valid_puzzle_def initializeRedisFromJson_def run_def item_def flushdb_def
      redis_set_def rpush_def lpush_def blank_letters_def)

lemma raises_item:
  "raises P (item r key v k) = (case v of None \<Rightarrow> P (KeyError key) | Some y \<Rightarrow> raises P (k y))"
  by (simp add: raises_def item_def split: option.splits)

lemma raises_run:
  "raises P (run r c k) =
     (case c r of Inl x \<Rightarrow> P (ResponseError x) | Inr r' \<Rightarrow> raises P (k r'))"
  by (simp add: raises_def run_def split: sum.splits)

text \<open>The body of the load, from the flush on, ends with such an exception when a field is missing.\<close>

lemma raises_load:
  assumes "missing_field d"
  shows "raises load_error
     (run r0 flushdb (\<lambda>r.
          run r (redis_set ''stateNumber'' (str_int 0)) (\<lambda>r.
          item r ''size'' (json_size d) (\<lambda>sz.
          item r ''cols'' (size_cols sz) (\<lambda>cols.
          run r (redis_set ''cols'' (str_int cols)) (\<lambda>r.
          item r ''size'' (json_size d) (\<lambda>sz.
          item r ''rows'' (size_rows sz) (\<lambda>rows.
          run r (redis_set ''rows'' (str_int rows)) (\<lambda>r.
          item r ''grid'' (json_grid d) (\<lambda>grid.
          run r (rpush ''answerGrid'' grid) (\<lambda>r.
          item r ''clues'' (json_clues d) (\<lambda>clues.
          item r ''across'' (clues_across clues) (\<lambda>across.
          run r (rpush ''cluesAcross'' across) (\<lambda>r.
          item r ''clues'' (json_clues d) (\<lambda>clues.
          item r ''down'' (clues_down clues) (\<lambda>down.
          run r (rpush ''cluesDown'' down) (\<lambda>r.
          item r ''gridnums'' (json_gridnums d) (\<lambda>gridnums.
          run r (rpush ''gridNumbers'' (map str_int gridnums)) (\<lambda>r.
          item r ''title'' (json_title d) (\<lambda>title.
          run r (redis_set ''title'' title) (\<lambda>r.
          run r (lpush ''revealedGrid'' [''-1'']) (\<lambda>r.
          item r ''grid'' (json_grid d) (\<lambda>gridCopy.
          run r (lpush ''grid'' (blank_letters gridCopy)) (\<lambda>r.
          Inr r))))))))))))))))))))))))"
  using assms
  by (auto simp add: raises_item raises_run load_error_def missing_field_def
      flushdb_def redis_set_def rpush_def split: option.splits)

text \<open>
  C6, as claimed: a puzzle definition that is structurally inconsistent does not load.
  The program never compares a length. The definition below announces 2 rows and 2
  columns, has a grid of 3 cells and a numbering of 1 entry, and it loads: the server
  goes on with a grid of 3 cells.
\<close>

theorem C6_length_mismatch_loads:
  "int (length [''A'', ''.'', ''C'']) \<noteq> 2 * 2 \<and>
   length [1 :: int] \<noteq> length [''A'', ''.'', ''C''] \<and>
   main_event
     (\<lambda>fileName. Some
        \<lparr>json_size = Some \<lparr>size_rows = Some 2, size_cols = Some 2\<rparr>,
         json_grid = Some [''A'', ''.'', ''C''],
         json_clues = Some \<lparr>clues_across = Some [''1. First letter''],
                            clues_down = Some [''1. A vowel'']\<rparr>,
         json_gridnums = Some [1],
         json_title = Some ''Odd''\<rparr>)
     [''websocketServer.py''] Map.empty =
   Serving
     [''stateNumber'' \<mapsto> RString ''0'', ''cols'' \<mapsto> RString ''2'', ''rows'' \<mapsto> RString ''2'',
      ''answerGrid'' \<mapsto> RList [''A'', ''.'', ''C''],
      ''cluesAcross'' \<mapsto> RList [''1. First letter''],
      ''cluesDown'' \<mapsto> RList [''1. A vowel''],
      ''gridNumbers'' \<mapsto> RList [''1''], ''title'' \<mapsto> RString ''Odd'',
      ''revealedGrid'' \<mapsto> RList [''-1''],
      ''grid'' \<mapsto> RList ['' '', ''.'', '' '']]"
  by (simp add: main_event_def initializeRedisFromJson_def run_def item_def flushdb_def
      redis_set_def rpush_def lpush_def blank_letters_def str_int_def str_nat.simps
      digit_char_def)

text \<open>
  C6, amended: for every puzzle definition in which a required field is missing, the load
  raises an exception (the \<open>KeyError\<close> of the missing key, or Redis's refusal of an
  empty list pushed before that key is read) and the process ends there, before the
  server is started. Lengths are not compared.
\<close>

theorem C6_missing_field_stops_the_load:
  assumes "sys_argv = [prog] \<and> fileName = ''json/ExampleCrossword.json'' \<or>
           2 \<le> length sys_argv \<and> fileName = sys_argv ! 1"
    and "json_load fileName = Some d"
    and "missing_field d"
  shows "\<exists>e r. main_event json_load sys_argv r0 = Crashed e r \<and>
     ((\<exists>k. e = KeyError k) \<or> e = ResponseError WrongNumberOfArguments)"
proof -
  from assms(1,2) raises_load [OF assms(3), of r0]
  have "raises load_error (initializeRedisFromJson json_load sys_argv r0)"
    by (auto simp add: initializeRedisFromJson_def)
  then obtain e r where
    "initializeRedisFromJson json_load sys_argv r0 = Inl (e, r)" "load_error e"
    by (auto simp add: raises_def split: sum.splits)
  then show ?thesis
    by (auto simp add: main_event_def load_error_def split: error.splits)
qed

theorem C6_missing_field_stops_the_load_witness:
  "missing_field
     \<lparr>json_size = Some \<lparr>size_rows = Some 1, size_cols = Some 2\<rparr>,
      json_grid = Some [''.'', ''A''],
      json_clues = Some \<lparr>clues_across = Some [''2. First letter''], clues_down = None\<rparr>,
      json_gridnums = Some [0, 2],
      json_title = Some ''Tiny''\<rparr> \<and>
   main_event
     (\<lambda>fileName. if fileName = ''json/tiny.json'' then Some
        \<lparr>json_size = Some \<lparr>size_rows = Some 1, size_cols = Some 2\<rparr>,
         json_grid = Some [''.'', ''A''],
         json_clues = Some \<lparr>clues_across = Some [''2. First letter''], clues_down = None\<rparr>,
         json_gridnums = Some [0, 2],
         json_title = Some ''Tiny''\<rparr> else None)
     [''websocketServer.py'', ''json/tiny.json''] [''grid'' \<mapsto> RList [''X'']] =
   Crashed (KeyError ''down'')
     [''stateNumber'' \<mapsto> RString ''0'', ''cols'' \<mapsto> RString ''2'', ''rows'' \<mapsto> RString ''1'',
      ''answerGrid'' \<mapsto> RList [''.'', ''A''],
      ''cluesAcross'' \<mapsto> RList [''2. First letter'']]"
  using C6_missing_field_stops_the_load [of
      "[''websocketServer.py'', ''json/tiny.json'']" "''websocketServer.py''" "''json/tiny.json''"
      "\<lambda>fileName. if fileName = ''json/tiny.json'' then Some
        \<lparr>json_size = Some \<lparr>size_rows = Some 1, size_cols = Some 2\<rparr>,
         json_grid = Some [''.'', ''A''],
         json_clues = Some \<lparr>clues_across = Some [''2. First letter''], clues_down = None\<rparr>,
         json_gridnums = Some [0, 2],
         json_title = Some ''Tiny''\<rparr> else None"
      "\<lparr>json_size = Some \<lparr>size_rows = Some 1, size_cols = Some 2\<rparr>,
         json_grid = Some [''.'', ''A''],
         json_clues = Some \<lparr>clues_across = Some [''2. First letter''], clues_down = None\<rparr>,
         json_gridnums = Some [0, 2],
         json_title = Some ''Tiny''\<rparr>"
      "[''grid'' \<mapsto> RList [''X'']]"]
  by (simp add: missing_field_def main_event_def initializeRedisFromJson_def run_def item_def
      flushdb_def redis_set_def rpush_def lpush_def str_int_def str_nat.simps digit_char_def)

subsection \<open>Grid updates\<close>

text \<open>
  An event emitted with \<open>include_self = False\<close> reaches every connected client but the
  sender, once.
\<close>

lemma received_socketio_emit_others:
  "c \<in> clients \<Longrightarrow> c \<noteq> s \<Longrightarrow>
   received c [socketio_emit clients s event data False] = [(event, data)]"
  by (simp add: received_def socketio_emit_def)

lemma received_socketio_emit_self:
  "received s [socketio_emit clients s event data False] = []"
  by (simp add: received_def socketio_emit_def)

lemma handle_UpdateGrid_manual:
  assumes "loads msg = Some req" "req_method req = Some ''manual''"
    "req_position req = Some p" "req_value req = Some v"
  shows "handle_UpdateGrid loads clients s msg r =
     (case lset ''grid'' p v r of
        Inl e \<Rightarrow> Inl (ResponseError e, r)
      | Inr r' \<Rightarrow> Inr (r', [socketio_emit clients s ''serverGridUpdate'' (Text msg) False]))"
  using assms
  by (simp add: handle_UpdateGrid_def item_def then_do_def run_def split: sum.splits)

lemma handle_UpdateGrid_revealed:
  assumes "loads msg = Some req" "req_method req = Some ''revealed''"
    "req_position req = Some p"
  shows "handle_UpdateGrid loads clients s msg r =
     (case lpush ''revealedGrid'' [str_int p] r of
        Inl e \<Rightarrow> Inl (ResponseError e, r)
      | Inr r' \<Rightarrow> Inr (r', [socketio_emit clients s ''serverGridUpdate'' (Text msg) False]))"
  using assms
  by (simp add: handle_UpdateGrid_def item_def then_do_def run_def split: sum.splits)

lemma handle_UpdateGrid_other:
  assumes "loads msg = Some req" "req_method req = Some m"
    "m \<noteq> ''manual''" "m \<noteq> ''revealed''"
  shows "handle_UpdateGrid loads clients s msg r =
     Inr (r, [socketio_emit clients s ''serverGridUpdate'' (Text msg) False])"
  using assms
  by (simp add: handle_UpdateGrid_def item_def then_do_def run_def)

text \<open>
  C2. For every gridUpdate message with method \<open>manual\<close> and a position in range
  (\<open>0 \<le> position < rows * cols\<close>, the stored grid having \<open>rows * cols\<close> cells), after
  the handler has run the stored grid holds the message's value at that position, and
  every other connected client receives exactly one event, whose payload is the incoming
  message as it came; the sender receives none.
\<close>

theorem C2_manual_update:
  assumes "loads msg = Some req" "req_method req = Some ''manual''"
    and "req_position req = Some p" "req_value req = Some v"
    and "r ''grid'' = Some (RList g)" "length g = rows * cols"
    and "0 \<le> p" "p < int (rows * cols)"
  shows "\<exists>g' ems.
     handle_UpdateGrid loads clients s msg r = Inr (r(''grid'' \<mapsto> RList g'), ems) \<and>
     g' = g[nat p := v] \<and> length g' = rows * cols \<and> g' ! nat p = v \<and>
     (\<forall>c \<in> clients - {s}. received c ems = [(''serverGridUpdate'', Text msg)]) \<and>
     received s ems = []"
proof -
  have "p < int (length g)"
    unfolding assms(6) by (rule assms(8))
  with assms(7) have inside: "nat p < length g"
    by linarith
  with assms(5,7) have
    "lset ''grid'' p v r = Inr (r(''grid'' \<mapsto> RList (g[nat p := v])))"
    by (simp add: lset_def)
  with assms(1-4) have
    "handle_UpdateGrid loads clients s msg r =
       Inr (r(''grid'' \<mapsto> RList (g[nat p := v])),
            [socketio_emit clients s ''serverGridUpdate'' (Text msg) False])"
    by (simp add: handle_UpdateGrid_manual)
  then show ?thesis
    using assms(6) inside
    by (simp add: received_socketio_emit_others received_socketio_emit_self)
qed

theorem C2_manual_update_witness:
  "\<exists>g' ems.
     handle_UpdateGrid
       (\<lambda>t. if t = ''{method:manual,position:1,value:B}''
            then Some \<lparr>req_method = Some ''manual'', req_position = Some 1,
                       req_value = Some ''B''\<rparr>
            else None)
       {''X'', ''Y''} ''X'' ''{method:manual,position:1,value:B}''
       [''grid'' \<mapsto> RList ['' '', '' '', '' '', '' '']] =
       Inr ([''grid'' \<mapsto> RList g'], ems) \<and>
     g' = ['' '', ''B'', '' '', '' ''] \<and>
     received ''Y'' ems = [(''serverGridUpdate'', Text ''{method:manual,position:1,value:B}'')] \<and>
     received ''X'' ems = []"
  using C2_manual_update [of
      "\<lambda>t. if t = ''{method:manual,position:1,value:B}''
            then Some \<lparr>req_method = Some ''manual'', req_position = Some 1,
                       req_value = Some ''B''\<rparr>
            else None"
      "''{method:manual,position:1,value:B}''"
      "\<lparr>req_method = Some ''manual'', req_position = Some 1, req_value = Some ''B''\<rparr>"
      1 "''B''" "[''grid'' \<mapsto> RList ['' '', '' '', '' '', '' '']]"
      "['' '', '' '', '' '', '' '']" 2 2 "{''X'', ''Y''}" "''X''"]
  by simp

text \<open>
  C3. For every gridUpdate message with method \<open>revealed\<close> the handler adds the
  message's position to \<open>revealedGrid\<close> (LPUSH inserts it at the head): afterwards the
  list contains the position, everything it held before is still there, and the position
  occurs once more than before, whether or not it was there already. Nothing is
  deduplicated.
\<close>

theorem C3_revealed_update:
  assumes "loads msg = Some req" "req_method req = Some ''revealed''"
    and "req_position req = Some p"
    and "r ''revealedGrid'' = Some (RList rg)"
  shows "\<exists>rg' ems.
     handle_UpdateGrid loads clients s msg r = Inr (r(''revealedGrid'' \<mapsto> RList rg'), ems) \<and>
     rg' = str_int p # rg \<and>
     str_int p \<in> set rg' \<and>
     mset rg' = add_mset (str_int p) (mset rg) \<and>
     count_list rg' (str_int p) = Suc (count_list rg (str_int p)) \<and>
     (\<forall>q. str_int q \<in> set rg' \<longleftrightarrow> q = p \<or> str_int q \<in> set rg)"
  using assms
  by (auto simp add: handle_UpdateGrid_revealed lpush_def dest: str_int_inj)

theorem C3_revealed_update_witness:
  "\<exists>rg' ems.
     handle_UpdateGrid
       (\<lambda>t. if t = ''{method:revealed,position:3}''
            then Some \<lparr>req_method = Some ''revealed'', req_position = Some 3,
                       req_value = None\<rparr>
            else None)
       {''X'', ''Y''} ''X'' ''{method:revealed,position:3}''
       [''revealedGrid'' \<mapsto> RList [''3'', ''-1'']] =
       Inr ([''revealedGrid'' \<mapsto> RList rg'], ems) \<and>
     rg' = [''3'', ''3'', ''-1''] \<and>
     count_list rg' ''3'' = 2"
  using C3_revealed_update [of
      "\<lambda>t. if t = ''{method:revealed,position:3}''
            then Some \<lparr>req_method = Some ''revealed'', req_position = Some 3,
                       req_value = None\<rparr>
            else None"
      "''{method:revealed,position:3}''"
      "\<lparr>req_method = Some ''revealed'', req_position = Some 3, req_value = None\<rparr>"
      3 "[''revealedGrid'' \<mapsto> RList [''3'', ''-1'']]" "[''3'', ''-1'']" "{''X'', ''Y''}" "''X''"]
  by (simp add: str_int_def str_nat.simps digit_char_def)

text \<open>
  C4. For every gridUpdate message whose method is neither \<open>manual\<close> nor \<open>revealed\<close>
  the handler returns without raising and leaves the database as it was: the grid,
  \<open>revealedGrid\<close>, every other key of the puzzle and the presence entries.
\<close>

theorem C4_other_method_no_op:
  assumes "loads msg = Some req" "req_method req = Some m"
    and "m \<noteq> ''manual''" "m \<noteq> ''revealed''"
  shows "\<exists>ems. handle_UpdateGrid loads clients s msg r = Inr (r, ems)"
  using assms by (simp add: handle_UpdateGrid_other)

theorem C4_other_method_no_op_witness:
  "\<exists>ems.
     handle_UpdateGrid
       (\<lambda>t. if t = ''{method:check,position:1}''
            then Some \<lparr>req_method = Some ''check'', req_position = Some 1,
                       req_value = None\<rparr>
            else None)
       {''X'', ''Y''} ''X'' ''{method:check,position:1}''
       [''grid'' \<mapsto> RList ['' '', '' ''], ''revealedGrid'' \<mapsto> RList [''-1''],
        ''userHash'' \<mapsto> RHash [(''X'', ''0''), (''Y'', ''0'')]] =
     Inr ([''grid'' \<mapsto> RList ['' '', '' ''], ''revealedGrid'' \<mapsto> RList [''-1''],
           ''userHash'' \<mapsto> RHash [(''X'', ''0''), (''Y'', ''0'')]], ems)"
  using C4_other_method_no_op [of
      "\<lambda>t. if t = ''{method:check,position:1}''
            then Some \<lparr>req_method = Some ''check'', req_position = Some 1,
                       req_value = None\<rparr>
            else None"
      "''{method:check,position:1}''"
      "\<lparr>req_method = Some ''check'', req_position = Some 1, req_value = None\<rparr>"
      "''check''" "{''X'', ''Y''}" "''X''"
      "[''grid'' \<mapsto> RList ['' '', '' ''], ''revealedGrid'' \<mapsto> RList [''-1''],
        ''userHash'' \<mapsto> RHash [(''X'', ''0''), (''Y'', ''0'')]]"]
  by simp

text \<open>
  C10. For every gridUpdate message whose method is neither \<open>manual\<close> nor \<open>revealed\<close>
  the handler still emits the incoming message as it came to every connected client but
  the sender, the database being unchanged.
\<close>

theorem C10_other_method_broadcast:
  assumes "loads msg = Some req" "req_method req = Some m"
    and "m \<noteq> ''manual''" "m \<noteq> ''revealed''"
  shows "\<exists>ems.
     handle_UpdateGrid loads clients s msg r = Inr (r, ems) \<and>
     ems = [\<lparr>ev_name = ''serverGridUpdate'', ev_data = Text msg, ev_to = clients - {s}\<rparr>] \<and>
     (\<forall>c \<in> clients - {s}. received c ems = [(''serverGridUpdate'', Text msg)]) \<and>
     received s ems = []"
  using assms
  by (simp add: handle_UpdateGrid_other received_def socketio_emit_def)

theorem C10_other_method_broadcast_witness:
  "\<exists>ems.
     handle_UpdateGrid
       (\<lambda>t. if t = ''{method:check,position:1}''
            then Some \<lparr>req_method = Some ''check'', req_position = Some 1,
                       req_value = None\<rparr>
            else None)
       {''X'', ''Y'', ''Z''} ''X'' ''{method:check,position:1}''
       [''grid'' \<mapsto> RList ['' '', '' '']] =
       Inr ([''grid'' \<mapsto> RList ['' '', '' '']], ems) \<and>
     received ''Y'' ems = [(''serverGridUpdate'', Text ''{method:check,position:1}'')] \<and>
     received ''Z'' ems = [(''serverGridUpdate'', Text ''{method:check,position:1}'')] \<and>
     received ''X'' ems = []"
  using C10_other_method_broadcast [of
      "\<lambda>t. if t = ''{method:check,position:1}''
            then Some \<lparr>req_method = Some ''check'', req_position = Some 1,
                       req_value = None\<rparr>
            else None"
      "''{method:check,position:1}''"
      "\<lparr>req_method = Some ''check'', req_position = Some 1, req_value = None\<rparr>"
      "''check''" "{''X'', ''Y'', ''Z''}" "''X''" "[''grid'' \<mapsto> RList ['' '', '' '']]"]
  by simp




subsection \<open>Presence\<close>

lemma presence_ok_cases:
  assumes "presence_ok r"
  obtains "r ''userHash'' = None" "presence_entries r = []"
  | h where "r ''userHash'' = Some (RHash h)" "presence_entries r = h" "distinct (map fst h)"
  using assms
  by (auto simp add: presence_ok_def presence_entries_def split: option.splits rvalue.splits)

lemma hset_userHash:
  assumes "presence_ok r"
  shows "hset ''userHash'' s v r =
     Inr (r(''userHash'' \<mapsto> RHash (AList.update s v (presence_entries r))))"
  using assms by (rule presence_ok_cases) (simp_all add: hset_def)

lemma hdel_userHash:
  assumes "presence_ok r"
  shows "hdel ''userHash'' s r =
     Inr (if AList.delete s (presence_entries r) = [] then r(''userHash'' := None)
          else r(''userHash'' \<mapsto> RHash (AList.delete s (presence_entries r))))"
proof (rule presence_ok_cases [OF assms])
  assume none: "r ''userHash'' = None" "presence_entries r = []"
  then have "r(''userHash'' := None) = r"
    by (simp add: fun_upd_idem)
  with none show ?thesis
    by (simp add: hdel_def)
next
  fix h
  assume "r ''userHash'' = Some (RHash h)" "presence_entries r = h"
  then show ?thesis
    by (simp add: hdel_def)
qed

lemma presence_entries_hset:
  assumes "presence_ok r"
  obtains r' where "hset ''userHash'' s v r = Inr r'"
    "presence_entries r' = AList.update s v (presence_entries r)"
    "presence_ok r'" "\<forall>k. k \<noteq> ''userHash'' \<longrightarrow> r' k = r k"
    "hvals ''userHash'' r' = Inr (map snd (presence_entries r'))"
    "hkeys ''userHash'' r' = Inr (map fst (presence_entries r'))"
proof -
  let ?h = "AList.update s v (presence_entries r)"
  let ?r = "r(''userHash'' \<mapsto> RHash ?h)"
  from assms have "distinct (map fst (presence_entries r))"
    by (rule presence_ok_cases) simp_all
  then have "distinct (map fst ?h)"
    by (simp add: distinct_update)
  then have "presence_ok ?r"
    by (simp add: presence_ok_def)
  then show thesis
    using hset_userHash [OF assms, of s v]
    by (intro that [of ?r]) (simp_all add: presence_entries_def hvals_def hkeys_def)
qed

lemma presence_entries_hdel:
  assumes "presence_ok r"
  obtains r' where "hdel ''userHash'' s r = Inr r'"
    "presence_entries r' = AList.delete s (presence_entries r)"
    "presence_ok r'" "\<forall>k. k \<noteq> ''userHash'' \<longrightarrow> r' k = r k"
    "hvals ''userHash'' r' = Inr (map snd (presence_entries r'))"
proof -
  let ?h = "AList.delete s (presence_entries r)"
  let ?r = "if ?h = [] then r(''userHash'' := None) else r(''userHash'' \<mapsto> RHash ?h)"
  from assms have "distinct (map fst (presence_entries r))"
    by (rule presence_ok_cases) simp_all
  then have "distinct (map fst ?h)"
    by (simp add: distinct_delete)
  then have "presence_ok ?r"
    by (simp add: presence_ok_def)
  then show thesis
    using hdel_userHash [OF assms, of s]
    by (intro that [of ?r]) (simp_all add: presence_entries_def hvals_def)
qed

lemma update_only_entry:
  assumes "distinct (map fst h)" "dom (map_of h) \<subseteq> {s}"
  shows "AList.update s v h = [(s, v)]"
proof (cases h)
  case Nil
  then show ?thesis by simp
next
  case (Cons a t)
  obtain k x where a: "a = (k, x)" by (cases a)
  from assms(2) Cons a have k: "k = s" by auto
  have "t = []"
  proof (cases t)
    case Nil
    then show ?thesis .
  next
    case (Cons b u)
    obtain k' y where b: "b = (k', y)" by (cases b)
    from assms(1) \<open>h = a # t\<close> a Cons b have "k' \<noteq> k" by auto
    moreover from assms(1) \<open>h = a # t\<close> a Cons b have "map_of h k' = Some y"
      by auto
    with assms(2) have "k' = s" by blast
    ultimately show ?thesis using k by simp
  qed
  with Cons a k show ?thesis by simp
qed

text \<open>
  C8. For every connect event of a connection \<open>s\<close> the handler registers the presence
  entry \<open>s \<mapsto> 0\<close> (stored as the text \<open>''0''\<close>), so that the presence listing afterwards
  maps \<open>s\<close> to 0; it emits one event, \<open>serverAssignID\<close> with the identity \<open>s\<close> as its
  payload, addressed to \<open>s\<close> alone; no other event, and so no puzzle state, is sent, and no
  key but the presence hash is written.
\<close>

theorem C8_connect:
  assumes "presence_ok r"
  shows "\<exists>r' ems.
     handle_connect s r = Inr (r', ems) \<and>
     presence r' = (presence r)(s \<mapsto> str_int 0) \<and>
     presence r' s = Some ''0'' \<and>
     (\<forall>k. k \<noteq> ''userHash'' \<longrightarrow> r' k = r k) \<and>
     ems = [\<lparr>ev_name = ''serverAssignID'', ev_data = Text s, ev_to = {s}\<rparr>] \<and>
     received s ems = [(''serverAssignID'', Text s)] \<and>
     (\<forall>c. c \<noteq> s \<longrightarrow> received c ems = [])"
proof -
  from assms obtain r' where
    r': "hset ''userHash'' s ''0'' r = Inr r'"
      "presence_entries r' = AList.update s ''0'' (presence_entries r)"
      "\<forall>k. k \<noteq> ''userHash'' \<longrightarrow> r' k = r k"
    by (rule presence_entries_hset [of r s "''0''"]) blast
  have "handle_connect s r = Inr (r', [emit s ''serverAssignID'' (Text s)])"
    using r'(1) by (simp add: handle_connect_def run_def)
  moreover have "presence r' = (presence r)(s \<mapsto> ''0'')"
    using r'(2) by (simp add: presence_def update_conv')
  ultimately show ?thesis
    using r'(3) by (simp add: str_int_0 emit_def received_def)
qed

theorem C8_connect_witness:
  "presence_ok [''grid'' \<mapsto> RList ['' ''], ''userHash'' \<mapsto> RHash [(''id1'', ''5'')]] \<and>
   handle_connect ''id2''
     [''grid'' \<mapsto> RList ['' ''], ''userHash'' \<mapsto> RHash [(''id1'', ''5'')]] =
   Inr ([''grid'' \<mapsto> RList ['' ''],
         ''userHash'' \<mapsto> RHash [(''id1'', ''5''), (''id2'', ''0'')]],
        [\<lparr>ev_name = ''serverAssignID'', ev_data = Text ''id2'', ev_to = {''id2''}\<rparr>]) \<and>
   presence [''grid'' \<mapsto> RList ['' ''],
             ''userHash'' \<mapsto> RHash [(''id1'', ''5''), (''id2'', ''0'')]] ''id2'' = Some ''0''"
  using C8_connect [of
      "[''grid'' \<mapsto> RList ['' ''], ''userHash'' \<mapsto> RHash [(''id1'', ''5'')]]" "''id2''"]
  by (simp add: presence_ok_def presence_def presence_entries_def handle_connect_def run_def
      hset_def emit_def str_int_0)

text \<open>
  C9. For every disconnect event of a connection \<open>s\<close> the handler removes the presence
  entry of \<open>s\<close>, so that the presence listing afterwards does not contain \<open>s\<close>, and emits
  the reduced snapshot, a dictionary with the one key \<open>position\<close> holding the remaining
  positions and no identities, to every connected client but \<open>s\<close>.
\<close>

theorem C9_disconnect:
  assumes "presence_ok r"
  shows "\<exists>r' ems positions.
     handle_disconnect clients s r = Inr (r', ems) \<and>
     presence r' = (presence r)(s := None) \<and>
     s \<notin> dom (presence r') \<and>
     presence_entries r' = AList.delete s (presence_entries r) \<and>
     (\<forall>k. k \<noteq> ''userHash'' \<longrightarrow> r' k = r k) \<and>
     ems = [\<lparr>ev_name = ''serverPositionUpdate'',
             ev_data = JsonDumps [(''position'', positions)],
             ev_to = clients - {s}\<rparr>] \<and>
     positions = map snd (presence_entries r') \<and>
     (\<forall>c \<in> clients - {s}.
        received c ems = [(''serverPositionUpdate'', JsonDumps [(''position'', positions)])]) \<and>
     received s ems = []"
proof -
  from assms obtain r' where
    r': "hdel ''userHash'' s r = Inr r'"
      "presence_entries r' = AList.delete s (presence_entries r)"
      "\<forall>k. k \<noteq> ''userHash'' \<longrightarrow> r' k = r k"
      "hvals ''userHash'' r' = Inr (map snd (presence_entries r'))"
    by (rule presence_entries_hdel [of r s]) blast
  have "handle_disconnect clients s r =
      Inr (r', [socketio_emit clients s ''serverPositionUpdate''
                  (JsonDumps [(''position'', map snd (presence_entries r'))]) False])"
    using r'(1,4) by (simp add: handle_disconnect_def run_def query_def)
  moreover have "presence r' = (presence r)(s := None)"
    using r'(2) by (simp add: presence_def delete_conv')
  ultimately show ?thesis
    using r'(2,3) by (simp add: socketio_emit_def received_def)
qed

theorem C9_disconnect_witness:
  "presence_ok [''userHash'' \<mapsto> RHash [(''id1'', ''0''), (''id2'', ''5'')]] \<and>
   handle_disconnect {''id1'', ''id2''} ''id1''
     [''userHash'' \<mapsto> RHash [(''id1'', ''0''), (''id2'', ''5'')]] =
   Inr ([''userHash'' \<mapsto> RHash [(''id2'', ''5'')]],
        [\<lparr>ev_name = ''serverPositionUpdate'', ev_data = JsonDumps [(''position'', [''5''])],
          ev_to = {''id2''}\<rparr>]) \<and>
   presence [''userHash'' \<mapsto> RHash [(''id2'', ''5'')]] ''id1'' = None"
  using C9_disconnect [of
      "[''userHash'' \<mapsto> RHash [(''id1'', ''0''), (''id2'', ''5'')]]"
      "{''id1'', ''id2''}" "''id1''"]
  by (simp add: presence_ok_def presence_def presence_entries_def handle_disconnect_def
      run_def query_def hdel_def hvals_def socketio_emit_def)

text \<open>
  C7. For every positionUpdate message from a connection \<open>s\<close> with position \<open>p\<close> the
  handler sets the presence entry of \<open>s\<close> to \<open>p\<close> (stored as its decimal text) and then
  emits the full presence snapshot, the dictionary of all identities under \<open>websocketID\<close>
  and all positions under \<open>position\<close> in the same order, to all connected clients, the
  sender among them; when the sender is the only connection (the presence entries being
  those of connections, as \<open>running_invariant\<close> below shows of the running server) the
  snapshot holds exactly one entry, the sender's.
\<close>

theorem C7_position_update:
  assumes "loads msg = Some req" "req_position req = Some p"
    and "presence_ok r"
  shows "\<exists>r' ems ids positions.
     handle_UpdatePosition loads clients s msg r = Inr (r', ems) \<and>
     presence r' = (presence r)(s \<mapsto> str_int p) \<and>
     (\<forall>k. k \<noteq> ''userHash'' \<longrightarrow> r' k = r k) \<and>
     ems = [\<lparr>ev_name = ''serverPositionUpdate'',
             ev_data = JsonDumps [(''websocketID'', ids), (''position'', positions)],
             ev_to = clients\<rparr>] \<and>
     ids = map fst (presence_entries r') \<and>
     positions = map snd (presence_entries r') \<and>
     (\<forall>c \<in> clients. received c ems =
        [(''serverPositionUpdate'',
          JsonDumps [(''websocketID'', ids), (''position'', positions)])]) \<and>
     (clients = {s} \<and> dom (presence r) \<subseteq> clients \<longrightarrow>
        ids = [s] \<and> positions = [str_int p])"
proof -
  from assms(3) obtain r' where
    r': "hset ''userHash'' s (str_int p) r = Inr r'"
      "presence_entries r' = AList.update s (str_int p) (presence_entries r)"
      "\<forall>k. k \<noteq> ''userHash'' \<longrightarrow> r' k = r k"
      "hvals ''userHash'' r' = Inr (map snd (presence_entries r'))"
      "hkeys ''userHash'' r' = Inr (map fst (presence_entries r'))"
    by (rule presence_entries_hset [of r s "str_int p"]) blast
  let ?ids = "map fst (presence_entries r')"
  let ?positions = "map snd (presence_entries r')"
  have "handle_UpdatePosition loads clients s msg r =
      Inr (r', [socketio_emit clients s ''serverPositionUpdate''
                  (JsonDumps [(''websocketID'', ?ids), (''position'', ?positions)]) True])"
    using assms(1,2) r'(1,4,5)
    by (simp add: handle_UpdatePosition_def item_def run_def query_def)
  moreover have "presence r' = (presence r)(s \<mapsto> str_int p)"
    using r'(2) by (simp add: presence_def update_conv')
  moreover have "presence_entries r' = [(s, str_int p)]"
    if "clients = {s} \<and> dom (presence r) \<subseteq> clients"
  proof -
    from that have only: "dom (presence r) \<subseteq> {s}" by blast
    from assms(3) have "distinct (map fst (presence_entries r))"
      by (rule presence_ok_cases) simp_all
    with only show ?thesis
      unfolding r'(2) presence_def by (rule update_only_entry [rotated])
  qed
  ultimately show ?thesis
    using r'(3) by (auto simp add: socketio_emit_def received_def)
qed

theorem C7_position_update_witness:
  "presence_ok [''userHash'' \<mapsto> RHash [(''id1'', ''0'')]] \<and>
   dom (presence [''userHash'' \<mapsto> RHash [(''id1'', ''0'')]]) \<subseteq> {''id1''} \<and>
   handle_UpdatePosition
     (\<lambda>t. if t = ''{position:5}''
          then Some \<lparr>req_method = None, req_position = Some 5, req_value = None\<rparr>
          else None)
     {''id1''} ''id1'' ''{position:5}''
     [''userHash'' \<mapsto> RHash [(''id1'', ''0'')]] =
   Inr ([''userHash'' \<mapsto> RHash [(''id1'', ''5'')]],
        [\<lparr>ev_name = ''serverPositionUpdate'',
          ev_data = JsonDumps [(''websocketID'', [''id1'']), (''position'', [''5''])],
          ev_to = {''id1''}\<rparr>])"
  using C7_position_update [of
      "\<lambda>t. if t = ''{position:5}''
          then Some \<lparr>req_method = None, req_position = Some 5, req_value = None\<rparr>
          else None"
      "''{position:5}''"
      "\<lparr>req_method = None, req_position = Some 5, req_value = None\<rparr>" 5
      "[''userHash'' \<mapsto> RHash [(''id1'', ''0'')]]" "{''id1''}" "''id1''"]
  by (simp add: presence_ok_def presence_def presence_entries_def handle_UpdatePosition_def
      item_def run_def query_def hset_def hvals_def hkeys_def socketio_emit_def
      str_int_def str_nat.simps digit_char_def)

text \<open>
  The scenario of two connections: \<open>id1\<close> and \<open>id2\<close> are present at position 0 and
  \<open>id2\<close> moves to 5; both receive the snapshot of both entries, in the order in which
  they connected.
\<close>

lemma position_update_two_connections:
  "(case handle_UpdatePosition
        (\<lambda>t. if t = ''{position:5}''
             then Some \<lparr>req_method = None, req_position = Some 5, req_value = None\<rparr>
             else None)
        {''id1'', ''id2''} ''id2'' ''{position:5}''
        [''userHash'' \<mapsto> RHash [(''id1'', ''0''), (''id2'', ''0'')]] of
      Inl failure \<Rightarrow> False
    | Inr (r, ems) \<Rightarrow>
        r = [''userHash'' \<mapsto> RHash [(''id1'', ''0''), (''id2'', ''5'')]] \<and>
        received ''id1'' ems =
          [(''serverPositionUpdate'',
            JsonDumps [(''websocketID'', [''id1'', ''id2'']), (''position'', [''0'', ''5''])])] \<and>
        received ''id2'' ems = received ''id1'' ems)"
  by (simp add: handle_UpdatePosition_def item_def run_def query_def hset_def hvals_def
      hkeys_def socketio_emit_def received_def str_int_def str_nat.simps digit_char_def)

subsection \<open>The invariant of the running server\<close>

lemma store_ok_grid_cases:
  assumes "store_ok n r"
  obtains g rg where "r ''grid'' = Some (RList g)" "length g = n"
    "r ''revealedGrid'' = Some (RList rg)" "presence_ok r"
  using assms
  by (auto simp add: store_ok_def split: option.splits rvalue.splits)

lemma presence_ok_other_key:
  "k \<noteq> ''userHash'' \<Longrightarrow> presence_ok (r(k \<mapsto> x)) = presence_ok r"
  by (simp add: presence_ok_def)

lemma presence_other_key:
  "k \<noteq> ''userHash'' \<Longrightarrow> presence (r(k \<mapsto> x)) = presence r"
  by (simp add: presence_def presence_entries_def)

lemma store_ok_presence:
  assumes "store_ok n r" "presence_ok r'" "\<forall>k. k \<noteq> ''userHash'' \<longrightarrow> r' k = r k"
  shows "store_ok n r'"
  using assms by (simp add: store_ok_def)

lemma after_connect:
  assumes "store_ok n r"
  shows "store_ok n (after (handle_connect s r)) \<and>
     dom (presence (after (handle_connect s r))) = insert s (dom (presence r))"
proof -
  from assms have ok: "presence_ok r" by (simp add: store_ok_def)
  then obtain r' where r': "hset ''userHash'' s ''0'' r = Inr r'" "presence_ok r'"
      "\<forall>k. k \<noteq> ''userHash'' \<longrightarrow> r' k = r k"
      "presence_entries r' = AList.update s ''0'' (presence_entries r)"
    by (rule presence_entries_hset [of r s "''0''"]) blast
  then have "after (handle_connect s r) = r'"
    by (simp add: handle_connect_def run_def after_def)
  with assms r' show ?thesis
    by (simp add: store_ok_presence presence_def update_conv')
qed

lemma after_disconnect:
  assumes "store_ok n r"
  shows "store_ok n (after (handle_disconnect clients s r)) \<and>
     dom (presence (after (handle_disconnect clients s r))) = dom (presence r) - {s}"
proof -
  from assms have ok: "presence_ok r" by (simp add: store_ok_def)
  then obtain r' where r': "hdel ''userHash'' s r = Inr r'" "presence_ok r'"
      "\<forall>k. k \<noteq> ''userHash'' \<longrightarrow> r' k = r k"
      "hvals ''userHash'' r' = Inr (map snd (presence_entries r'))"
      "presence_entries r' = AList.delete s (presence_entries r)"
    by (rule presence_entries_hdel [of r s]) blast
  then have "after (handle_disconnect clients s r) = r'"
    by (simp add: handle_disconnect_def run_def query_def after_def)
  with assms r' show ?thesis
    by (simp add: store_ok_presence presence_def delete_conv')
qed

lemma after_UpdatePosition:
  assumes "store_ok n r"
  shows "store_ok n (after (handle_UpdatePosition loads clients s msg r)) \<and>
     (dom (presence (after (handle_UpdatePosition loads clients s msg r))) = dom (presence r) \<or>
      dom (presence (after (handle_UpdatePosition loads clients s msg r))) =
        insert s (dom (presence r)))"
proof (cases "loads msg")
  case None
  with assms show ?thesis
    by (simp add: handle_UpdatePosition_def after_def)
next
  case (Some req)
  show ?thesis
  proof (cases "req_position req")
    case None
    with Some assms show ?thesis
      by (simp add: handle_UpdatePosition_def item_def after_def)
  next
    case (Some p)
    from assms have ok: "presence_ok r" by (simp add: store_ok_def)
    then obtain r' where r': "hset ''userHash'' s (str_int p) r = Inr r'" "presence_ok r'"
        "\<forall>k. k \<noteq> ''userHash'' \<longrightarrow> r' k = r k"
        "hvals ''userHash'' r' = Inr (map snd (presence_entries r'))"
        "hkeys ''userHash'' r' = Inr (map fst (presence_entries r'))"
        "presence_entries r' = AList.update s (str_int p) (presence_entries r)"
      by (rule presence_entries_hset [of r s "str_int p"]) blast
    with Some \<open>loads msg = Some req\<close>
    have "after (handle_UpdatePosition loads clients s msg r) = r'"
      by (simp add: handle_UpdatePosition_def item_def run_def query_def after_def)
    with assms r' show ?thesis
      by (simp add: store_ok_presence presence_def update_conv')
  qed
qed

lemma store_ok_lset:
  assumes "store_ok n r" "lset ''grid'' p v r = Inr r'"
  shows "store_ok n r' \<and> presence r' = presence r"
  using assms(1)
proof (rule store_ok_grid_cases)
  fix g rg
  assume "r ''grid'' = Some (RList g)" "length g = n"
    "r ''revealedGrid'' = Some (RList rg)" "presence_ok r"
  with assms(2) show ?thesis
    by (auto simp add: lset_def store_ok_def presence_ok_other_key presence_other_key
        split: if_splits)
qed

lemma store_ok_lpush_revealed:
  assumes "store_ok n r" "lpush ''revealedGrid'' [x] r = Inr r'"
  shows "store_ok n r' \<and> presence r' = presence r"
  using assms(1)
proof (rule store_ok_grid_cases)
  fix g rg
  assume "r ''grid'' = Some (RList g)" "length g = n"
    "r ''revealedGrid'' = Some (RList rg)" "presence_ok r"
  with assms(2) show ?thesis
    by (auto simp add: lpush_def store_ok_def presence_ok_other_key presence_other_key)
qed

lemma after_UpdateGrid:
  assumes "store_ok n r"
  shows "store_ok n (after (handle_UpdateGrid loads clients s msg r)) \<and>
     presence (after (handle_UpdateGrid loads clients s msg r)) = presence r"
proof (cases "loads msg")
  case None
  with assms show ?thesis
    by (simp add: handle_UpdateGrid_def after_def)
next
  case (Some req)
  note req = this
  show ?thesis
  proof (cases "req_method req")
    case None
    with req assms show ?thesis
      by (simp add: handle_UpdateGrid_def item_def after_def)
  next
    case (Some m)
    note m = this
    consider (manual) "m = ''manual''" | (revealed) "m = ''revealed''"
      | (other) "m \<noteq> ''manual''" "m \<noteq> ''revealed''"
      by blast
    then show ?thesis
    proof cases
      case manual
      show ?thesis
      proof (cases "req_position req")
        case None
        with req m manual assms show ?thesis
          by (simp add: handle_UpdateGrid_def item_def then_do_def after_def)
      next
        case (Some p)
        note p = this
        show ?thesis
        proof (cases "req_value req")
          case None
          with req m manual p assms show ?thesis
            by (simp add: handle_UpdateGrid_def item_def then_do_def after_def)
        next
          case (Some v)
          with req m manual p have h: "handle_UpdateGrid loads clients s msg r =
              (case lset ''grid'' p v r of
                 Inl e \<Rightarrow> Inl (ResponseError e, r)
               | Inr r' \<Rightarrow>
                   Inr (r', [socketio_emit clients s ''serverGridUpdate'' (Text msg) False]))"
            by (simp add: handle_UpdateGrid_manual)
          show ?thesis
          proof (cases "lset ''grid'' p v r")
            case (Inl e)
            with h assms show ?thesis by (simp add: after_def)
          next
            case (Inr r')
            with h store_ok_lset [OF assms Inr] show ?thesis by (simp add: after_def)
          qed
        qed
      qed
    next
      case revealed
      show ?thesis
      proof (cases "req_position req")
        case None
        with req m revealed assms show ?thesis
          by (simp add: handle_UpdateGrid_def item_def then_do_def after_def)
      next
        case (Some p)
        with req m revealed have h: "handle_UpdateGrid loads clients s msg r =
            (case lpush ''revealedGrid'' [str_int p] r of
               Inl e \<Rightarrow> Inl (ResponseError e, r)
             | Inr r' \<Rightarrow>
                 Inr (r', [socketio_emit clients s ''serverGridUpdate'' (Text msg) False]))"
          by (simp add: handle_UpdateGrid_revealed)
        show ?thesis
        proof (cases "lpush ''revealedGrid'' [str_int p] r")
          case (Inl e)
          with h assms show ?thesis by (simp add: after_def)
        next
          case (Inr r')
          with h store_ok_lpush_revealed [OF assms Inr] show ?thesis by (simp add: after_def)
        qed
      qed
    next
      case other
      with req m assms show ?thesis
        by (simp add: handle_UpdateGrid_other after_def)
    qed
  qed
qed

lemma store_ok_loaded:
  assumes "sys_argv = [prog] \<and> fileName = ''json/ExampleCrossword.json'' \<or>
       2 \<le> length sys_argv \<and> fileName = sys_argv ! 1"
    and "json_load fileName = Some d" "valid_puzzle d"
    and "json_grid d = Some g"
    and "main_event json_load sys_argv r0 = Serving r"
  shows "store_ok (length g) r \<and> presence r = Map.empty"
proof -
  from assms(1-3) obtain r' answer live where
    "initializeRedisFromJson json_load sys_argv r0 = Inr r'"
    "json_grid d = Some answer" "r' ''grid'' = Some (RList live)"
    "length live = length answer" "r' ''userHash'' = None"
    "r' ''revealedGrid'' = Some (RList [''-1''])"
    by (rule initializeRedisFromJson_valid [where ?r0.0 = r0])
  with assms(4,5) show ?thesis
    by (simp add: main_event_def store_ok_def presence_ok_def presence_def
        presence_entries_def)
qed

text \<open>
  In every state of the running server the live grid has the puzzle's number of cells,
  \<open>revealedGrid\<close> is a list, and the presence entries are those of the connections that
  are there: the hypotheses under which the handlers were described above hold whenever
  a handler runs, and a sender that is the only connection has the only presence entry.
\<close>

theorem running_invariant:
  "running n r clients \<Longrightarrow> store_ok n r \<and> dom (presence r) = clients"
proof (induction rule: running.induct)
  case (loaded sys_argv prog fileName json_load d g r0 r)
  then show ?case
    using store_ok_loaded [of sys_argv prog fileName json_load d g r0 r] by simp
next
  case (connect r clients s)
  then show ?case
    using after_connect [of n r s] by simp
next
  case (disconnect r clients s)
  then show ?case
    using after_disconnect [of n r clients s] by simp
next
  case (grid_update r clients s loads msg)
  then show ?case
    using after_UpdateGrid [of n r loads clients s msg] by simp
next
  case (position_update r clients s loads msg)
  then show ?case
    using after_UpdatePosition [of n r loads clients s msg] by (auto simp add: insert_absorb)
qed

end
